theory Spec2Isabelle
  imports Main
begin

section \<open>Strings\<close>

text \<open>
  A Python \<open>str\<close> is a sequence of Unicode code points. It is modelled as a list of
  natural numbers, one per code point, so that the emoji of the bot's messages and the
  Unicode white space of \<open>str.split\<close> are what they are in the source. \<open>str\<close> turns an
  ASCII literal into such a list.
\<close>

type_synonym pystr = "nat list"

definition str :: "string \<Rightarrow> pystr" where
  "str s = map of_char s"

definition startswith :: "pystr \<Rightarrow> pystr \<Rightarrow> bool" where
  "startswith s p = (take (length p) s = p)"

text \<open>
  \<open>s.split(sep, maxsplit=1)\<close> for a one-character separator: the text before the first
  separator and the text after it, or the whole text alone when there is no separator.
\<close>

definition split1 :: "nat \<Rightarrow> pystr \<Rightarrow> pystr list" where
  "split1 sep s =
     (if sep \<in> set s
      then [takeWhile (\<lambda>c. c \<noteq> sep) s, tl (dropWhile (\<lambda>c. c \<noteq> sep) s)]
      else [s])"

text \<open>
  \<open>s.split(maxsplit=1)\<close> splits at runs of white space: leading white space is dropped,
  the first word is cut, the white space after it is dropped, and what remains (with its
  trailing white space) is the second element, when it is not empty.
\<close>

definition isspace :: "nat \<Rightarrow> bool" where
  "isspace c =
     ((9 \<le> c \<and> c \<le> 13) \<or> (28 \<le> c \<and> c \<le> 32) \<or> c = 133 \<or> c = 160 \<or> c = 5760 \<or>
      (8192 \<le> c \<and> c \<le> 8202) \<or> c = 8232 \<or> c = 8233 \<or> c = 8239 \<or> c = 8287 \<or>
      c = 12288)"

definition split_ws1 :: "pystr \<Rightarrow> pystr list" where
  "split_ws1 s =
     (let s1 = dropWhile isspace s in
      if s1 = [] then []
      else
        let word = takeWhile (\<lambda>c. \<not> isspace c) s1;
            rest = dropWhile isspace (dropWhile (\<lambda>c. \<not> isspace c) s1)
        in if rest = [] then [word] else [word, rest])"

text \<open>The format \<open>{n:x}\<close>: lower-case hexadecimal, a minus sign for a negative number.\<close>

definition hex_digit :: "nat \<Rightarrow> nat" where
  "hex_digit d = (if d < 10 then 48 + d else 87 + d)"

function hex_nat :: "nat \<Rightarrow> pystr" where
  "hex_nat n = (if n < 16 then [hex_digit n] else hex_nat (n div 16) @ [hex_digit (n mod 16)])"
  by pat_completeness auto
termination
  by (relation "measure id") auto

declare hex_nat.simps [simp del]

definition format_x :: "int \<Rightarrow> pystr" where
  "format_x i = (if i < 0 then 45 # hex_nat (nat (- i)) else hex_nat (nat i))"

section \<open>Users and whispers\<close>

text \<open>
  The platform's user object, with the fields the bot reads. \<open>mention\<close> and \<open>full_name\<close>
  are the library's properties: the handle with a leading \<open>@\<close> when the user has one, the
  full name otherwise. The library compares two user objects by their account id:
  \<open>from_user != whisper.sender\<close> of the source is \<open>user_ne\<close>, which holds when the two
  account ids differ, whatever the names and handles are.
\<close>

record user =
  uid :: int
  first_name :: pystr
  last_name :: "pystr option"
  username :: "pystr option"

definition full_name :: "user \<Rightarrow> pystr" where
  "full_name u =
     (case last_name u of
        None \<Rightarrow> first_name u
      | Some l \<Rightarrow> if l = [] then first_name u else first_name u @ str '' '' @ l)"

definition mention :: "user \<Rightarrow> pystr" where
  "mention u =
     (case username u of
        None \<Rightarrow> full_name u
      | Some n \<Rightarrow> if n = [] then full_name u else str ''@'' @ n)"

definition user_ne :: "user \<Rightarrow> user \<Rightarrow> bool" where
  "user_ne u v = (uid u \<noteq> uid v)"

record WhisperEntry =
  sender :: user
  recipient :: pystr
  content :: pystr

section \<open>The two dictionaries and the expiring tasks\<close>

text \<open>
  An asyncio task made from the coroutine \<open>_expire_whisper(id, in_seconds)\<close> is a record
  of the whisper id, the delay it sleeps and its status. A task handle is its index in
  the list of all tasks ever created. \<open>awaiting\<close> holds the coroutines of explicit expire
  requests that are parked at their \<open>asyncio.sleep(0)\<close>; the resolver's cache and the
  count of outbound requests complete the module's state.
\<close>

datatype task_status = Pending | Cancelled | Finished | Failed

record task =
  t_id :: pystr
  t_in_seconds :: nat
  t_status :: task_status

record state =
  whispers :: "pystr \<rightharpoonup> WhisperEntry"
  expiring_tasks :: "pystr \<rightharpoonup> nat"
  tasks :: "task list"
  awaiting :: "pystr list"
  cache :: "(pystr \<times> pystr option) list"
  requests :: nat

definition init :: state where
  "init = \<lparr>whispers = Map.empty, expiring_tasks = Map.empty, tasks = [], awaiting = [],
            cache = [], requests = 0\<rparr>"

datatype exn = KeyError | ValueError | AssertionError | AttributeError | ClientError

text \<open>\<open>Task.cancel()\<close>: a pending task is cancelled, a task that is over is left as it is.\<close>

definition cancel :: "nat \<Rightarrow> task list \<Rightarrow> task list" where
  "cancel h ts =
     (if h < length ts \<and> t_status (ts ! h) = Pending
      then ts[h := (ts ! h)\<lparr>t_status := Cancelled\<rparr>] else ts)"

text \<open>
  \<open>expire_whisper(id, in_seconds)\<close>: the synchronous part cancels and forgets the stored
  task of the id, and the result is the coroutine object, not yet run.
\<close>

definition expire_whisper :: "pystr \<Rightarrow> nat \<Rightarrow> state \<Rightarrow> (pystr \<times> nat) \<times> state" where
  "expire_whisper wid in_seconds st =
     ((wid, in_seconds),
      (case expiring_tasks st wid of
         None \<Rightarrow> st
       | Some h \<Rightarrow> st\<lparr>expiring_tasks := (expiring_tasks st)(wid := None),
                       tasks := cancel h (tasks st)\<rparr>))"

text \<open>
  The coroutine \<open>_expire_whisper\<close> once its sleep is over: \<open>whispers.pop(id)\<close>, which
  raises \<open>KeyError\<close> when the id is not in the dictionary.
\<close>

definition expire_whisper_coro :: "pystr \<Rightarrow> state \<Rightarrow> exn + state" where
  "expire_whisper_coro wid st =
     (case whispers st wid of
        None \<Rightarrow> Inl KeyError
      | Some w \<Rightarrow> Inr (st\<lparr>whispers := (whispers st)(wid := None)\<rparr>))"

definition create_task :: "pystr \<times> nat \<Rightarrow> state \<Rightarrow> nat \<times> state" where
  "create_task c st =
     (length (tasks st),
      st\<lparr>tasks := tasks st @ [\<lparr>t_id = fst c, t_in_seconds = snd c, t_status = Pending\<rparr>]\<rparr>)"

text \<open>The task with handle \<open>h\<close> wakes from its sleep and runs to its end.\<close>

definition task_wakeup :: "nat \<Rightarrow> state \<Rightarrow> state" where
  "task_wakeup h st =
     (if h < length (tasks st) \<and> t_status (tasks st ! h) = Pending
      then (case expire_whisper_coro (t_id (tasks st ! h)) st of
              Inl e \<Rightarrow> st\<lparr>tasks := (tasks st)[h := (tasks st ! h)\<lparr>t_status := Failed\<rparr>]\<rparr>
            | Inr st' \<Rightarrow> st'\<lparr>tasks := (tasks st')[h := (tasks st' ! h)\<lparr>t_status := Finished\<rparr>]\<rparr>)
      else st)"

section \<open>The button handler\<close>

definition text_expired :: pystr where
  "text_expired = [0x23F2, 0xFE0F, 0x1F514] @ str ''/'' @ [0x274C] @
                  str '' The message is expired or non-existent.''"

definition text_neither :: pystr where
  "text_neither = [0x1F6AB] @ str '' You are neither the sender nor recipient.''"

definition text_unsupported :: pystr where
  "text_unsupported = [0x274C] @ str '' Unsupported Action '' @ [0x274C]"

definition text_expired_ok :: pystr where
  "text_expired_ok = [0x2705] @ str '' Successfully expired.''"

definition text_reveal :: "WhisperEntry \<Rightarrow> pystr" where
  "text_reveal w = str ''From '' @ mention (sender w) @ str '' to @'' @ recipient w @
                   str '':'' @ [10, 10] @ content w"

record callback_query =
  from_user :: user
  data :: pystr

text \<open>
  What a run of the handler ends with: a call of \<open>query.answer\<close> (text, cache time,
  alert flag), an exception that is not a \<open>ReadableException\<close> and leaves the handler, or,
  for a run that stops at its first suspension, the coroutine it waits for.
\<close>

datatype cb_result = Answer pystr nat bool | Raised exn | Awaits "pystr \<times> nat"

definition answer_error :: "pystr \<Rightarrow> cb_result" where
  "answer_error error_text = Answer error_text 1800 False"

text \<open>
  The handler up to its first suspension. The look-up, the authorization test and the
  synchronous part of \<open>expire_whisper\<close> run without a suspension; the handler of an
  \<open>EXPIRE\<close> request then waits for the coroutine, whose \<open>sleep(0)\<close> lets other handlers
  run.
\<close>

definition whisper_callback_begin :: "callback_query \<Rightarrow> state \<Rightarrow> cb_result \<times> state" where
  "whisper_callback_begin query st =
     (case split1 124 (data query) of
        [action, whisper_id] \<Rightarrow>
          (case whispers st whisper_id of
             None \<Rightarrow> (answer_error text_expired, st)
           | Some whisper \<Rightarrow>
               if username (from_user query) \<noteq> Some (recipient whisper)
                  \<and> user_ne (from_user query) (sender whisper)
               then (answer_error text_neither, st)
               else if action = str ''REVEAL''
               then (Answer (text_reveal whisper) 30 True, st)
               else if action = str ''EXPIRE''
               then (let (c, st') = expire_whisper whisper_id 0 st in (Awaits c, st'))
               else (answer_error text_unsupported, st))
      | _ \<Rightarrow> (Raised ValueError, st))"

text \<open>The rest of an \<open>EXPIRE\<close> request, once the coroutine's sleep is over.\<close>

definition whisper_callback_resume :: "pystr \<times> nat \<Rightarrow> state \<Rightarrow> cb_result \<times> state" where
  "whisper_callback_resume c st =
     (case expire_whisper_coro (fst c) st of
        Inl e \<Rightarrow> (Raised e, st)
      | Inr st' \<Rightarrow> (Answer text_expired_ok 1800 False, st'))"

text \<open>A request handled from start to end with no other handler run in between.\<close>

definition whisper_callback_handler :: "callback_query \<Rightarrow> state \<Rightarrow> cb_result \<times> state" where
  "whisper_callback_handler query st =
     (case whisper_callback_begin query st of
        (Awaits c, st') \<Rightarrow> whisper_callback_resume c st'
      | r \<Rightarrow> r)"

section \<open>The deep-link handler\<close>

text \<open>
  \<open>start_save_handler\<close> runs on \<open>/start SAVE_<whisper_id>\<close>; the filter hands it the
  match, whose group \<open>whisper_id\<close> always exists, so the handler's input is the sender
  of the message and that group. It ends with \<open>message.answer\<close> or \<open>message.reply\<close>.
\<close>

record message =
  m_from_user :: user
  m_whisper_id :: pystr

datatype msg_result = MessageAnswer pystr | MessageReply pystr

definition text_saved :: "WhisperEntry \<Rightarrow> pystr" where
  "text_saved w = str ''_Message from_ '' @ mention (sender w) @ str '' _to_ @'' @
                  recipient w @ str '':'' @ [10, 10] @ content w"

definition start_save_handler :: "message \<Rightarrow> state \<Rightarrow> msg_result \<times> state" where
  "start_save_handler msg st =
     (case whispers st (m_whisper_id msg) of
        None \<Rightarrow> (MessageReply text_expired, st)
      | Some whisper \<Rightarrow>
          if username (m_from_user msg) \<noteq> Some (recipient whisper)
             \<and> user_ne (m_from_user msg) (sender whisper)
          then (MessageReply text_neither, st)
          else (MessageAnswer (text_saved whisper), st))"

section \<open>The resolver\<close>

text \<open>
  \<open>REGEX_RESOLVE_USER.search(text)\<close> for the pattern
  \<^verbatim>\<open><div\ class="tgme_page_title">(.+?)</div>\<close>: the leftmost position where the opening
  tag stands, followed by the shortest non-empty run of characters other than a line feed
  that is followed by the closing tag. The result is group 1, or \<open>None\<close> for no match.
\<close>

definition tag_open :: pystr where
  "tag_open = str ''<div class='' @ [34] @ str ''tgme_page_title'' @ [34] @ str ''>''"

definition tag_close :: pystr where
  "tag_close = str ''</div>''"

fun lazy_dots :: "pystr \<Rightarrow> pystr \<Rightarrow> pystr option" where
  "lazy_dots acc [] = None"
| "lazy_dots acc (c # cs) =
     (if startswith (c # cs) tag_close then Some acc
      else if c = 10 then None
      else lazy_dots (acc @ [c]) cs)"

definition match_here :: "pystr \<Rightarrow> pystr option" where
  "match_here s =
     (if startswith s tag_open
      then (case drop (length tag_open) s of
              [] \<Rightarrow> None
            | c # cs \<Rightarrow> if c = 10 then None else lazy_dots [c] cs)
      else None)"

fun regex_search :: "pystr \<Rightarrow> pystr option" where
  "regex_search [] = None"
| "regex_search (c # cs) =
     (case match_here (c # cs) of
        Some g \<Rightarrow> Some g
      | None \<Rightarrow> regex_search cs)"

text \<open>
  What the request of a URL gives: it raises (connection error, undecodable body), or it
  answers with a status and a text.
\<close>

datatype http_result = RequestFails | Response nat pystr

text \<open>The \<open>try\<close> block of \<open>resolve_user\<close>, with the exception it ends with.\<close>

definition resolve_user_try :: "(pystr \<Rightarrow> http_result) \<Rightarrow> pystr \<Rightarrow> exn + pystr" where
  "resolve_user_try http_get uname =
     (case http_get (str ''https://t.me/'' @ uname) of
        RequestFails \<Rightarrow> Inl ClientError
      | Response status body \<Rightarrow>
          if status \<noteq> 200 then Inl AssertionError
          else (case regex_search body of
                  None \<Rightarrow> Inl AttributeError
                | Some g \<Rightarrow> Inr g))"

text \<open>
  The function under the decorator: one request, and every exception of the \<open>try\<close> block
  caught and turned into \<open>None\<close>.
\<close>

definition resolve_user_body ::
    "(pystr \<Rightarrow> http_result) \<Rightarrow> pystr \<Rightarrow> state \<Rightarrow> pystr option \<times> state" where
  "resolve_user_body http_get uname st =
     (case resolve_user_try http_get uname of
        Inl e \<Rightarrow> (None, st\<lparr>requests := requests st + 1\<rparr>)
      | Inr g \<Rightarrow> (Some g, st\<lparr>requests := requests st + 1\<rparr>))"

text \<open>
  Modelled from the spec: the decorator \<open>alru_cache(maxsize=1024)\<close> belongs to a library
  that is not among the sources. Following the spec's words (a bounded cache keyed by
  handle, results and failures alike memoized, least-recently-used eviction), the cache is
  a list of entries, the most recently used first: a hit returns the stored result and
  moves the entry to the front, a miss runs the function, stores the result at the front
  and drops the entry at the back when the capacity is exceeded.
\<close>

definition maxsize :: nat where
  "maxsize = 1024"

definition resolve_user ::
    "(pystr \<Rightarrow> http_result) \<Rightarrow> pystr \<Rightarrow> state \<Rightarrow> pystr option \<times> state" where
  "resolve_user http_get uname st =
     (case map_of (cache st) uname of
        Some r \<Rightarrow> (r, st\<lparr>cache := (uname, r) # filter (\<lambda>e. fst e \<noteq> uname) (cache st)\<rparr>)
      | None \<Rightarrow>
          (let (r, st') = resolve_user_body http_get uname st
           in (r, st'\<lparr>cache := take maxsize ((uname, r) # cache st')\<rparr>)))"

section \<open>The inline handler\<close>

record inline_query =
  iq_from_user :: user
  iq_query :: pystr

datatype button = CallbackButton pystr pystr | UrlButton pystr pystr

record article =
  a_id :: pystr
  a_title :: pystr
  a_text :: pystr
  a_keyboard :: "button list list"

text \<open>The one call of \<open>query.answer\<close> that a run of the handler makes.\<close>

record inline_call =
  results :: "article list"
  cache_time :: nat
  is_personal :: bool

text \<open>
  What the handler takes from outside: the bot's own handle, the network, the clock
  (\<open>int(now())\<close>), the number \<open>id(whisper)\<close> of the message string, and what
  \<open>query.answer\<close> returns or raises.
\<close>

datatype answer_result = Returns bool | RaisesInvalidQueryID

record env =
  bot_username :: pystr
  http_get :: "pystr \<Rightarrow> http_result"
  now :: int
  id_whisper :: nat
  answer_result :: answer_result

text \<open>
  The first part of the handler: the usage checks, the split of the query, and the
  leading \<open>@\<close> stripped from the recipient. \<open>Inl\<close> is the content of the
  \<open>ReadableException\<close> raised.
\<close>

definition parse_query :: "pystr \<Rightarrow> pystr \<Rightarrow> (pystr \<times> pystr \<times> pystr) + (pystr \<times> pystr)" where
  "parse_query bot_name q =
     (if q = []
      then Inl (str ''EMPTY_ARG'',
                [0x2139, 0xFE0F] @ str '' Show Usage'',
                [0x2139, 0xFE0F] @ str '' Usage: '' @ [96] @ str ''@'' @ bot_name @
                  str '' @RECIPIENT message)'' @ [96])
      else (case split_ws1 q of
              [recipient', whisper] \<Rightarrow>
                Inr (if startswith recipient' (str ''@'') then tl recipient' else recipient',
                     whisper)
            | _ \<Rightarrow>
                Inl (str ''USAGE_ERROR'',
                     [0x274C] @ str '' Usage Error'',
                     [0x274C] @ str '' Usage Error'' @ [10] @ str ''Usage: '' @ [96] @
                       str ''@'' @ bot_name @ str '' @RECIPIENT message'' @ [96])))"

definition invalid_username :: "pystr \<times> pystr \<times> pystr" where
  "invalid_username = (str ''INVALID_USERNAME'', [0x274C] @ str '' Invalid Username'',
                       [0x274C] @ str '' Invalid Username'')"

definition error_call :: "pystr \<times> pystr \<times> pystr \<Rightarrow> inline_call" where
  "error_call c =
     \<lparr>results = [\<lparr>a_id = fst c, a_title = fst (snd c), a_text = snd (snd c),
                   a_keyboard = []\<rparr>],
      cache_time = 3600, is_personal = False\<rparr>"

definition make_whisper_id :: "int \<Rightarrow> nat \<Rightarrow> pystr" where
  "make_whisper_id t a = str ''WHISPER-'' @ format_x t @ str ''-'' @ hex_nat a"

definition text_confirmation :: "pystr \<Rightarrow> pystr \<Rightarrow> pystr" where
  "text_confirmation recipient_name recipient' =
     str ''*Private Message*'' @ [10] @ str ''_To_ '' @ recipient_name @ str ''(@'' @
     recipient' @ str ''),'' @ [10] @ str ''expiring in 30 minutes.''"

definition success_call :: "pystr \<Rightarrow> pystr \<Rightarrow> pystr \<Rightarrow> pystr \<Rightarrow> inline_call" where
  "success_call bot_name whisper_id recipient_name recipient' =
     (let input_content = text_confirmation recipient_name recipient';
          button_reveal = CallbackButton ([0x1F50E] @ str '' Reveal'')
                            (str ''REVEAL|'' @ whisper_id);
          button_save = UrlButton ([0x1F4BE] @ str '' Save'')
                          (str ''https://t.me/'' @ bot_name @ str ''?start=SAVE_'' @ whisper_id);
          button_expire = CallbackButton ([0x1F6D1] @ str '' Expire'')
                            (str ''EXPIRE|'' @ whisper_id);
          item_default = \<lparr>a_id = whisper_id @ str ''-1'', a_title = str ''With Save button'',
                          a_text = input_content,
                          a_keyboard = [[button_reveal, button_save, button_expire]]\<rparr>;
          item_nosave = \<lparr>a_id = whisper_id @ str ''-2'', a_title = str ''Without Save button'',
                         a_text = input_content,
                         a_keyboard = [[button_reveal, button_expire]]\<rparr>
      in \<lparr>results = [item_default, item_nosave], cache_time = 3, is_personal = True\<rparr>)"

text \<open>
  The three statements run when \<open>query.answer\<close> has returned \<open>True\<close>: the record is
  stored, \<open>expire_whisper(whisper_id, 15)\<close> is called, its coroutine is made a task, and
  the task's handle is stored.
\<close>

definition store_whisper :: "pystr \<Rightarrow> WhisperEntry \<Rightarrow> state \<Rightarrow> state" where
  "store_whisper whisper_id w st =
     (let st1 = st\<lparr>whispers := (whispers st)(whisper_id \<mapsto> w)\<rparr>;
          (c, st2) = expire_whisper whisper_id 15 st1;
          (h, st3) = create_task c st2
      in st3\<lparr>expiring_tasks := (expiring_tasks st3)(whisper_id \<mapsto> h)\<rparr>)"

definition whisper_inline_handler :: "env \<Rightarrow> inline_query \<Rightarrow> state \<Rightarrow> inline_call \<times> state" where
  "whisper_inline_handler e query st =
     (case parse_query (bot_username e) (iq_query query) of
        Inl c \<Rightarrow> (error_call c, st)
      | Inr (recipient', whisper) \<Rightarrow>
          (case resolve_user (http_get e) recipient' st of
             (None, st1) \<Rightarrow> (error_call invalid_username, st1)
           | (Some recipient_name, st1) \<Rightarrow>
               (let whisper_id = make_whisper_id (now e) (id_whisper e)
                in (success_call (bot_username e) whisper_id recipient_name recipient',
                    if answer_result e = Returns True
                    then store_whisper whisper_id
                           \<lparr>sender = iq_from_user query, recipient = recipient',
                            content = whisper\<rparr> st1
                    else st1))))"

section \<open>Runs of the bot\<close>

text \<open>
  The event loop runs one piece of code at a time, from one suspension to the next. The
  pieces that touch the two dictionaries are: a run of the inline handler from the answer
  of \<open>query.answer\<close> on, a button request up to its first suspension, the resumption of
  a parked expire request, a deep-link request, and the wake-up of an expiring task.
\<close>

datatype event =
    Inline env inline_query
  | CallbackBegin callback_query
  | CallbackResume nat
  | Save message
  | Wakeup nat

definition step :: "event \<Rightarrow> state \<Rightarrow> state" where
  "step ev st =
     (case ev of
        Inline e q \<Rightarrow> snd (whisper_inline_handler e q st)
      | CallbackBegin q \<Rightarrow>
          (case whisper_callback_begin q st of
             (Awaits c, st') \<Rightarrow> st'\<lparr>awaiting := awaiting st' @ [fst c]\<rparr>
           | (r, st') \<Rightarrow> st')
      | CallbackResume i \<Rightarrow>
          (if i < length (awaiting st)
           then snd (whisper_callback_resume (awaiting st ! i, 0)
                       (st\<lparr>awaiting := take i (awaiting st) @ drop (Suc i) (awaiting st)\<rparr>))
           else st)
      | Save m \<Rightarrow> snd (start_save_handler m st)
      | Wakeup h \<Rightarrow> task_wakeup h st)"

inductive reachable :: "state \<Rightarrow> bool" where
  reachable_init: "reachable init"
| reachable_step: "reachable st \<Longrightarrow> reachable (step ev st)"

section \<open>A scenario\<close>

text \<open>
  Alice sends Bob a whisper through the inline handler; Eve is a third user. The profile
  page the network returns names the recipient. \<open>st_live\<close> is the state after the
  creation, \<open>wid0\<close> the whisper id made in it.
\<close>

definition alice :: user where
  "alice = \<lparr>uid = 1, first_name = str ''Alice'', last_name = None,
            username = Some (str ''alice'')\<rparr>"

definition bob :: user where
  "bob = \<lparr>uid = 2, first_name = str ''Bob'', last_name = None,
          username = Some (str ''bob'')\<rparr>"

definition eve :: user where
  "eve = \<lparr>uid = 3, first_name = str ''Eve'', last_name = None,
          username = Some (str ''eve'')\<rparr>"

definition alice_renamed :: user where
  "alice_renamed = \<lparr>uid = 1, first_name = str ''Alicia'', last_name = Some (str ''Liddell''),
                    username = Some (str ''alicia'')\<rparr>"

definition page :: "pystr \<Rightarrow> http_result" where
  "page url = Response 200 (str ''<body>'' @ tag_open @ str ''Bob'' @ tag_close @
                            str ''</body>'')"

definition env0 :: env where
  "env0 = \<lparr>bot_username = str ''lowvoicebot'', http_get = page, now = 1700000000,
           id_whisper = 4096, answer_result = Returns True\<rparr>"

definition q_alice :: inline_query where
  "q_alice = \<lparr>iq_from_user = alice, iq_query = str ''@bob hi''\<rparr>"

definition q_eve :: inline_query where
  "q_eve = \<lparr>iq_from_user = eve, iq_query = str ''@bob yo''\<rparr>"

definition wid0 :: pystr where
  "wid0 = make_whisper_id 1700000000 4096"

definition st_live :: state where
  "st_live = snd (whisper_inline_handler env0 q_alice init)"

definition whisper0 :: WhisperEntry where
  "whisper0 = \<lparr>sender = alice, recipient = str ''bob'', content = str ''hi''\<rparr>"

definition whisper1 :: WhisperEntry where
  "whisper1 = \<lparr>sender = eve, recipient = str ''bob'', content = str ''yo''\<rparr>"

definition q_expire :: callback_query where
  "q_expire = \<lparr>from_user = alice, data = str ''EXPIRE|'' @ wid0\<rparr>"

definition q_reveal :: callback_query where
  "q_reveal = \<lparr>from_user = eve, data = str ''REVEAL|'' @ wid0\<rparr>"

definition st_expired :: state where
  "st_expired = snd (whisper_callback_handler q_expire st_live)"

section \<open>Facts about the scenario\<close>

lemma regex_search_page:
  "regex_search (str ''<body>'' @ tag_open @ str ''Bob'' @ tag_close @ str ''</body>'') =
     Some (str ''Bob'')"
  by (simp add: str_def tag_open_def tag_close_def match_here_def startswith_def)

lemma parse_query_alice: "parse_query b (str ''@bob hi'') = Inr (str ''bob'', str ''hi'')"
  by (simp add: parse_query_def split_ws1_def str_def isspace_def startswith_def)

lemma parse_query_eve: "parse_query b (str ''@bob yo'') = Inr (str ''bob'', str ''yo'')"
  by (simp add: parse_query_def split_ws1_def str_def isspace_def startswith_def)

lemma resolve_user_bob_init:
  "resolve_user page (str ''bob'') init =
     (Some (str ''Bob''), init\<lparr>cache := [(str ''bob'', Some (str ''Bob''))], requests := 1\<rparr>)"
  by (simp add: resolve_user_def resolve_user_body_def resolve_user_try_def init_def page_def
      regex_search_page maxsize_def)

lemma st_live_eq:
  "st_live =
     \<lparr>whispers = [wid0 \<mapsto> whisper0], expiring_tasks = [wid0 \<mapsto> 0],
      tasks = [\<lparr>t_id = wid0, t_in_seconds = 15, t_status = Pending\<rparr>],
      awaiting = [], cache = [(str ''bob'', Some (str ''Bob''))], requests = 1\<rparr>"
  apply (simp add: st_live_def whisper_inline_handler_def env0_def q_alice_def
      parse_query_alice resolve_user_bob_init)
  apply (simp add: store_whisper_def expire_whisper_def create_task_def wid0_def init_def
      Let_def whisper0_def)
  done

lemma users_differ: "eve \<noteq> alice" "username eve \<noteq> Some (str ''bob'')" "bob \<noteq> alice"
  by (simp_all add: eve_def alice_def bob_def str_def)

lemma uids: "uid alice = 1" "uid bob = 2" "uid eve = 3" "uid alice_renamed = 1"
  by (simp_all add: eve_def alice_def bob_def alice_renamed_def)

section \<open>Reveal and expire requests\<close>

lemma split1_reveal: "split1 124 (str ''REVEAL|'' @ wid) = [str ''REVEAL'', wid]"
  by (simp add: split1_def str_def)

lemma split1_expire: "split1 124 (str ''EXPIRE|'' @ wid) = [str ''EXPIRE'', wid]"
  by (simp add: split1_def str_def)

lemma expire_ne_reveal: "str ''EXPIRE'' \<noteq> str ''REVEAL''"
  by (simp add: str_def)

lemma texts_differ:
  "text_expired \<noteq> text_neither" "text_expired_ok \<noteq> text_neither"
  "text_expired_ok \<noteq> text_expired"
  by (simp_all add: text_expired_def text_neither_def text_expired_ok_def)

lemma callback_reveal:
  "whisper_callback_handler \<lparr>from_user = u, data = str ''REVEAL|'' @ wid\<rparr> st =
     (case whispers st wid of
        None \<Rightarrow> (answer_error text_expired, st)
      | Some w \<Rightarrow>
          if uid u = uid (sender w) \<or> username u = Some (recipient w)
          then (Answer (text_reveal w) 30 True, st)
          else (answer_error text_neither, st))"
  by (auto simp: whisper_callback_handler_def whisper_callback_begin_def split1_reveal
      answer_error_def user_ne_def split: option.splits)

lemma callback_expire:
  "whisper_callback_handler \<lparr>from_user = u, data = str ''EXPIRE|'' @ wid\<rparr> st =
     (case whispers st wid of
        None \<Rightarrow> (answer_error text_expired, st)
      | Some w \<Rightarrow>
          if uid u = uid (sender w) \<or> username u = Some (recipient w)
          then (Answer text_expired_ok 1800 False,
                (snd (expire_whisper wid 0 st))\<lparr>whispers := (whispers st)(wid := None)\<rparr>)
          else (answer_error text_neither, st))"
  by (auto simp: whisper_callback_handler_def whisper_callback_begin_def split1_expire
      expire_ne_reveal answer_error_def whisper_callback_resume_def user_ne_def
      expire_whisper_def expire_whisper_coro_def split: option.splits)

lemma save_cases:
  "start_save_handler \<lparr>m_from_user = u, m_whisper_id = wid\<rparr> st =
     (case whispers st wid of
        None \<Rightarrow> (MessageReply text_expired, st)
      | Some w \<Rightarrow>
          if uid u = uid (sender w) \<or> username u = Some (recipient w)
          then (MessageAnswer (text_saved w), st)
          else (MessageReply text_neither, st))"
  by (auto simp: start_save_handler_def user_ne_def split: option.splits)

lemma expire_whisper_forgets: "expiring_tasks (snd (expire_whisper wid n st)) wid = None"
  by (simp add: expire_whisper_def split: option.splits)

text \<open>
  C1. For a live record \<open>w\<close> stored under an id, a reveal request (by button or by deep
  link) and an expire request, each run to its end, succeed exactly when the requester's
  account is the sender's account or the requester's own handle is the stored recipient
  handle, compared as it stands. A successful reveal answers with the content and leaves
  the state as it is; a successful expire answers with success, and afterwards neither
  the record nor a task handle is stored under the id. Every other requester gets the
  denial, which is none of the success answers, and the state is left as it is.
\<close>

theorem authorization_rule:
  assumes "whispers st wid = Some w"
  shows "whisper_callback_handler \<lparr>from_user = u, data = str ''REVEAL|'' @ wid\<rparr> st =
           (if uid u = uid (sender w) \<or> username u = Some (recipient w)
            then (Answer (text_reveal w) 30 True, st) else (answer_error text_neither, st))
       \<and> fst (whisper_callback_handler \<lparr>from_user = u, data = str ''EXPIRE|'' @ wid\<rparr> st) =
           (if uid u = uid (sender w) \<or> username u = Some (recipient w)
            then Answer text_expired_ok 1800 False else answer_error text_neither)
       \<and> whispers (snd (whisper_callback_handler
                          \<lparr>from_user = u, data = str ''EXPIRE|'' @ wid\<rparr> st)) =
           (if uid u = uid (sender w) \<or> username u = Some (recipient w)
            then (whispers st)(wid := None) else whispers st)
       \<and> expiring_tasks (snd (whisper_callback_handler
                                \<lparr>from_user = u, data = str ''EXPIRE|'' @ wid\<rparr> st)) wid =
           (if uid u = uid (sender w) \<or> username u = Some (recipient w)
            then None else expiring_tasks st wid)
       \<and> (if uid u = uid (sender w) \<or> username u = Some (recipient w)
           then True
           else snd (whisper_callback_handler
                       \<lparr>from_user = u, data = str ''EXPIRE|'' @ wid\<rparr> st) = st)
       \<and> start_save_handler \<lparr>m_from_user = u, m_whisper_id = wid\<rparr> st =
           (if uid u = uid (sender w) \<or> username u = Some (recipient w)
            then (MessageAnswer (text_saved w), st) else (MessageReply text_neither, st))
       \<and> Answer (text_reveal w) 30 True \<noteq> answer_error text_neither
       \<and> Answer text_expired_ok 1800 False \<noteq> answer_error text_neither"
  using assms
  by (simp add: callback_reveal callback_expire save_cases answer_error_def texts_differ
      expire_whisper_forgets)

theorem authorization_rule_witness:
  "whispers st_live wid0 = Some whisper0
   \<and> fst (whisper_callback_handler \<lparr>from_user = bob, data = str ''REVEAL|'' @ wid0\<rparr> st_live) =
       Answer (text_reveal whisper0) 30 True
   \<and> fst (whisper_callback_handler
            \<lparr>from_user = alice_renamed, data = str ''REVEAL|'' @ wid0\<rparr> st_live) =
       Answer (text_reveal whisper0) 30 True
   \<and> fst (whisper_callback_handler \<lparr>from_user = alice, data = str ''EXPIRE|'' @ wid0\<rparr> st_live) =
       Answer text_expired_ok 1800 False
   \<and> whispers (snd (whisper_callback_handler
                      \<lparr>from_user = alice, data = str ''EXPIRE|'' @ wid0\<rparr> st_live)) wid0 = None
   \<and> whisper_callback_handler \<lparr>from_user = eve, data = str ''EXPIRE|'' @ wid0\<rparr> st_live =
       (answer_error text_neither, st_live)"
proof -
  have live: "whispers st_live wid0 = Some whisper0"
    by (simp add: st_live_eq)
  have eve: "whisper_callback_handler \<lparr>from_user = eve, data = str ''EXPIRE|'' @ wid0\<rparr> st_live =
       (answer_error text_neither, st_live)"
    using authorization_rule [OF live, of eve]
    by (simp add: prod_eq_iff whisper0_def uids users_differ)
  show ?thesis
    using live eve authorization_rule [OF live, of bob] authorization_rule [OF live, of alice]
      authorization_rule [OF live, of alice_renamed]
    by (simp add: whisper0_def uids bob_def str_def)
qed

text \<open>
  C6. A reveal request, by button or by deep link, returns the state as it found it,
  whatever its outcome: the record is not deleted, and a second reveal of the same request
  has the outcome of the first.
\<close>

theorem reveal_keeps_state:
  "snd (whisper_callback_handler \<lparr>from_user = u, data = str ''REVEAL|'' @ wid\<rparr> st) = st
   \<and> snd (start_save_handler m st) = st
   \<and> whisper_callback_handler \<lparr>from_user = u, data = str ''REVEAL|'' @ wid\<rparr>
       (snd (whisper_callback_handler \<lparr>from_user = u', data = str ''REVEAL|'' @ wid\<rparr> st)) =
     whisper_callback_handler \<lparr>from_user = u, data = str ''REVEAL|'' @ wid\<rparr> st"
proof -
  have a: "snd (whisper_callback_handler \<lparr>from_user = v, data = str ''REVEAL|'' @ wid\<rparr> st) = st"
    for v
    by (simp add: callback_reveal split: option.splits)
  have b: "snd (start_save_handler m st) = st"
    by (simp add: start_save_handler_def split: option.splits)
  show ?thesis
    by (simp only: a b simp_thms)
qed

section \<open>What a denied requester is told\<close>

lemma callback_absent:
  assumes "split1 124 d = [a, wid]" "whispers st wid = None"
  shows "whisper_callback_handler \<lparr>from_user = u, data = d\<rparr> st =
           (answer_error text_expired, st)"
  using assms
  by (simp add: whisper_callback_handler_def whisper_callback_begin_def answer_error_def)

lemma callback_unauthorized:
  assumes "split1 124 d = [a, wid]" "whispers st wid = Some w"
    "uid u \<noteq> uid (sender w)" "username u \<noteq> Some (recipient w)"
  shows "whisper_callback_handler \<lparr>from_user = u, data = d\<rparr> st =
           (answer_error text_neither, st)"
  using assms
  by (simp add: whisper_callback_handler_def whisper_callback_begin_def answer_error_def
      user_ne_def)

text \<open>
  C2, as the claim states it, fails: for the same requester Eve and the same id, the
  answer in a state where the id was never stored differs from the answer in a state
  where the id is live and Eve is neither its sender nor its recipient.
\<close>

theorem same_denial_text_counterexample:
  "whispers init wid0 = None \<and> whispers st_live wid0 = Some whisper0
   \<and> uid eve \<noteq> uid (sender whisper0) \<and> username eve \<noteq> Some (recipient whisper0)
   \<and> fst (whisper_callback_handler \<lparr>from_user = eve, data = str ''REVEAL|'' @ wid0\<rparr> init) \<noteq>
     fst (whisper_callback_handler \<lparr>from_user = eve, data = str ''REVEAL|'' @ wid0\<rparr> st_live)"
  by (simp add: callback_reveal st_live_eq init_def whisper0_def users_differ uids
      answer_error_def texts_differ)

text \<open>
  C2, amended. For every id, requester and action: when the id is absent, whether it
  never existed or has expired, the button handler and the deep-link handler answer with
  the one text "expired or non-existent" and leave the state as it is; when the id is live
  and the requester has neither the sender's account nor the recipient's handle, they
  answer with the one text
  "neither the sender nor recipient", which depends on nothing of the record. The two
  texts are different.
\<close>

theorem denial_texts:
  assumes "split1 124 d = [a, wid]" "whispers st wid = None" "whispers st' wid = Some w"
    "uid u \<noteq> uid (sender w)" "username u \<noteq> Some (recipient w)"
  shows "whisper_callback_handler \<lparr>from_user = u, data = d\<rparr> st =
           (answer_error text_expired, st)
       \<and> whisper_callback_handler \<lparr>from_user = u, data = d\<rparr> st' =
           (answer_error text_neither, st')
       \<and> start_save_handler \<lparr>m_from_user = u, m_whisper_id = wid\<rparr> st =
           (MessageReply text_expired, st)
       \<and> start_save_handler \<lparr>m_from_user = u, m_whisper_id = wid\<rparr> st' =
           (MessageReply text_neither, st')
       \<and> text_expired \<noteq> text_neither"
  using assms
  by (simp add: callback_absent [OF assms(1,2)] callback_unauthorized [OF assms(1,3,4,5)]
      save_cases texts_differ)

theorem denial_texts_witness:
  "whisper_callback_handler \<lparr>from_user = eve, data = str ''REVEAL|'' @ wid0\<rparr> init =
     (answer_error text_expired, init)
   \<and> whisper_callback_handler \<lparr>from_user = eve, data = str ''REVEAL|'' @ wid0\<rparr> st_live =
     (answer_error text_neither, st_live)"
proof -
  have 1: "whispers init wid0 = None" by (simp add: init_def)
  have 2: "whispers st_live wid0 = Some whisper0" by (simp add: st_live_eq)
  have 3: "uid eve \<noteq> uid (sender whisper0)" by (simp add: whisper0_def uids)
  have 4: "username eve \<noteq> Some (recipient whisper0)" by (simp add: whisper0_def users_differ)
  show ?thesis
    using denial_texts [OF split1_reveal 1 2 3 4] by simp
qed

section \<open>Two expire requests at once\<close>

lemma begin_expire_live:
  "whisper_callback_begin q_expire st_live =
     (Awaits (wid0, 0), st_live\<lparr>expiring_tasks := Map.empty,
        tasks := [\<lparr>t_id = wid0, t_in_seconds = 15, t_status = Cancelled\<rparr>]\<rparr>)"
  by (simp add: whisper_callback_begin_def q_expire_def split1_expire expire_ne_reveal
      st_live_eq whisper0_def expire_whisper_def cancel_def user_ne_def)

text \<open>
  C4. Two expire requests of the sender for the same live id, both started before
  either is resumed (each parks at the \<open>sleep(0)\<close> of its coroutine): both pass the
  presence test, the first one resumed removes the record and answers with success, and
  the removal of the second raises \<open>KeyError\<close>, which leaves the handler unanswered.
\<close>

theorem double_expire_interleaved:
  "(let (r1, s1) = whisper_callback_begin q_expire st_live;
        (r2, s2) = whisper_callback_begin q_expire s1;
        (r3, s3) = whisper_callback_resume (wid0, 0) s2;
        (r4, s4) = whisper_callback_resume (wid0, 0) s3
    in r1 = Awaits (wid0, 0) \<and> r2 = Awaits (wid0, 0)
       \<and> r3 = Answer text_expired_ok 1800 False \<and> r4 = Raised KeyError)"
  apply (simp add: begin_expire_live)
  apply (simp add: whisper_callback_begin_def q_expire_def split1_expire expire_ne_reveal
      st_live_eq whisper0_def expire_whisper_def cancel_def whisper_callback_resume_def
      expire_whisper_coro_def user_ne_def)
  done

section \<open>Whisper ids\<close>

lemma st_expired_eq:
  "st_expired = \<lparr>whispers = Map.empty, expiring_tasks = Map.empty,
      tasks = [\<lparr>t_id = wid0, t_in_seconds = 15, t_status = Cancelled\<rparr>],
      awaiting = [], cache = [(str ''bob'', Some (str ''Bob''))], requests = 1\<rparr>"
  by (simp add: st_expired_def q_expire_def callback_expire st_live_eq whisper0_def
      expire_whisper_def cancel_def)

lemma expire_live:
  "whisper_callback_handler q_expire st_live = (Answer text_expired_ok 1800 False, st_expired)"
  by (simp add: prod_eq_iff st_expired_def)
     (simp add: q_expire_def callback_expire st_live_eq whisper0_def)

lemma resolve_user_bob_cached:
  "cache st = [(str ''bob'', Some (str ''Bob''))] \<Longrightarrow>
   resolve_user net (str ''bob'') st = (Some (str ''Bob''), st)"
  by (simp add: resolve_user_def)

lemma create_alice:
  "whisper_inline_handler env0 q_alice init =
     (success_call (str ''lowvoicebot'') wid0 (str ''Bob'') (str ''bob''), st_live)"
  apply (simp add: prod_eq_iff st_live_def)
  apply (simp add: whisper_inline_handler_def env0_def q_alice_def
      parse_query_alice resolve_user_bob_init)
  apply (simp add: wid0_def Let_def)
  done

lemma create_eve:
  "whisper_inline_handler env0 q_eve st_expired =
     (success_call (str ''lowvoicebot'') wid0 (str ''Bob'') (str ''bob''),
      \<lparr>whispers = [wid0 \<mapsto> whisper1], expiring_tasks = [wid0 \<mapsto> 1],
       tasks = [\<lparr>t_id = wid0, t_in_seconds = 15, t_status = Cancelled\<rparr>,
                \<lparr>t_id = wid0, t_in_seconds = 15, t_status = Pending\<rparr>],
       awaiting = [], cache = [(str ''bob'', Some (str ''Bob''))], requests = 1\<rparr>)"
  apply (simp add: whisper_inline_handler_def env0_def q_eve_def parse_query_eve
      resolve_user_bob_cached st_expired_eq)
  apply (simp add: store_whisper_def expire_whisper_def create_task_def wid0_def
      Let_def whisper1_def)
  done

text \<open>
  C7. Two creations, by different senders with different messages, that read the same
  clock second and whose message strings get the same object number (the first whisper
  was expired in between, so its string is gone), are given the same whisper id: the
  results they send carry the same ids, and the second record is stored under the key of
  the first.
\<close>

theorem id_reused_after_expire:
  "(let (c1, s1) = whisper_inline_handler env0 q_alice init;
        (r, s2) = whisper_callback_handler q_expire s1;
        (c2, s3) = whisper_inline_handler env0 q_eve s2
    in q_alice \<noteq> q_eve
       \<and> map a_id (results c1) = [wid0 @ str ''-1'', wid0 @ str ''-2'']
       \<and> map a_id (results c2) = [wid0 @ str ''-1'', wid0 @ str ''-2'']
       \<and> whispers s1 wid0 = Some whisper0 \<and> whispers s3 wid0 = Some whisper1)"
proof -
  have "q_alice \<noteq> q_eve"
    by (simp add: q_alice_def q_eve_def users_differ(1)[symmetric])
  then show ?thesis
    by (simp add: create_alice expire_live create_eve)
       (simp add: success_call_def st_live_eq Let_def)
qed

text \<open>
  C3. After the sender's expire request has succeeded, the id is absent and a reveal is
  answered "expired or non-existent"; a later creation that is given the same id (same
  clock second, same object number) makes the id live again, and a reveal of that id
  succeeds.
\<close>

theorem live_again_after_expire:
  "(let (r1, s1) = whisper_callback_handler q_expire st_live;
        (r2, s2) = whisper_callback_handler q_reveal s1;
        (c, s3) = whisper_inline_handler env0 q_eve s2;
        (r4, s4) = whisper_callback_handler q_reveal s3
    in r1 = Answer text_expired_ok 1800 False \<and> whispers s1 wid0 = None
       \<and> r2 = answer_error text_expired
       \<and> whispers s3 wid0 = Some whisper1
       \<and> r4 = Answer (text_reveal whisper1) 30 True)"
proof -
  have "whisper_callback_handler q_reveal st_expired = (answer_error text_expired, st_expired)"
    by (simp add: q_reveal_def callback_reveal st_expired_eq)
  then show ?thesis
    by (simp add: expire_live create_eve)
       (simp add: q_reveal_def callback_reveal st_expired_eq whisper1_def)
qed

section \<open>The delay of the expiring task\<close>

lemma length_cancel: "length (cancel h ts) = length ts"
  by (simp add: cancel_def)

text \<open>
  C10. Whenever the inline handler creates a whisper (the query parses, the recipient
  resolves to a name, and \<open>query.answer\<close> returns \<open>True\<close>), the record is stored under the
  id made from the clock and the object number, a new task is created for that id with a
  delay of 15 seconds, pending, and its handle is stored; and the text of both results
  sent to the chat says "expiring in 30 minutes."
\<close>

theorem timer_delay:
  assumes "parse_query (bot_username e) (iq_query q) = Inr (r, w)"
    and "fst (resolve_user (http_get e) r st) = Some name"
    and "answer_result e = Returns True"
  shows "(let wid = make_whisper_id (now e) (id_whisper e);
              (call, st') = whisper_inline_handler e q st
          in whispers st' wid = Some \<lparr>sender = iq_from_user q, recipient = r, content = w\<rparr>
             \<and> expiring_tasks st' wid = Some (length (tasks st))
             \<and> length (tasks st') = Suc (length (tasks st))
             \<and> tasks st' ! length (tasks st) =
                 \<lparr>t_id = wid, t_in_seconds = 15, t_status = Pending\<rparr>
             \<and> map a_text (results call) =
                 replicate 2 (str ''*Private Message*'' @ [10] @ str ''_To_ '' @ name @
                   str ''(@'' @ r @ str ''),'' @ [10] @ str ''expiring in 30 minutes.''))"
proof -
  obtain st1 where res: "resolve_user (http_get e) r st = (Some name, st1)"
    using assms(2) by (cases "resolve_user (http_get e) r st") auto
  have frame: "tasks st1 = tasks st"
    using res
    by (auto simp: resolve_user_def resolve_user_body_def Let_def
        split: option.splits sum.splits)
  show ?thesis
    using assms(1,3) res frame
    by (simp add: whisper_inline_handler_def Let_def store_whisper_def expire_whisper_def
        create_task_def success_call_def text_confirmation_def length_cancel nth_append
        numeral_2_eq_2 split: option.splits)
qed

theorem timer_delay_witness:
  "expiring_tasks st_live wid0 = Some 0
   \<and> tasks st_live ! 0 = \<lparr>t_id = wid0, t_in_seconds = 15, t_status = Pending\<rparr>
   \<and> map a_text (results (fst (whisper_inline_handler env0 q_alice init))) =
       replicate 2 (str ''*Private Message*'' @ [10] @ str ''_To_ Bob(@bob),'' @ [10] @
         str ''expiring in 30 minutes.'')"
proof -
  have 1: "parse_query (bot_username env0) (iq_query q_alice) = Inr (str ''bob'', str ''hi'')"
    by (simp add: q_alice_def parse_query_alice)
  have 2: "fst (resolve_user (http_get env0) (str ''bob'') init) = Some (str ''Bob'')"
    by (simp add: env0_def resolve_user_bob_init)
  have 3: "answer_result env0 = Returns True"
    by (simp add: env0_def)
  have 4: "tasks init = []"
    by (simp add: init_def)
  have 5: "make_whisper_id (now env0) (id_whisper env0) = wid0"
    by (simp add: env0_def wid0_def)
  show ?thesis
    using timer_delay [OF 1 2 3]
    by (simp add: Let_def create_alice 4 5 str_def)
qed

end
